theory Spec2Isabelle
  imports Main
begin

section \<open>The 3-D ResNet encoder of encoders/resnet.py\<close>

text \<open>
  The file wires modules of the host framework (convolution, batch normalisation,
  activations, pooling, containers) into residual blocks, layers and an encoder. A module
  is modelled by the tree of its constructor arguments and submodules; the tensor
  arithmetic of the leaf modules belongs to the framework and enters the model as a
  parameter of \<open>forward\<close>. Python's unbounded integers are \<open>int\<close>, every raise is a
  value \<open>Inl e\<close> of a result type \<open>py_error + 'a\<close>.
\<close>

subsection \<open>Errors and argument values\<close>

datatype py_error = KeyError | IndexError | TypeError | AttributeError
  | NotImplementedError | RuntimeError

text \<open>
  A size argument of the framework is an integer or a 3-tuple; the framework stores
  \<open>_triple(v)\<close>, the integer repeated three times or the tuple itself.
\<close>

datatype size3 = Single int | Triple int int int

fun triple :: "size3 \<Rightarrow> int \<times> int \<times> int" where
  "triple (Single k) = (k, k, k)"
| "triple (Triple a b c) = (a, b, c)"

text \<open>
  The keyword arguments a convolution constructor receives, each one present or absent.
  \<open>groups\<close>, \<open>padding_mode\<close>, \<open>device\<close> and \<open>dtype\<close> are never passed by this file and
  are left at the framework's defaults.
\<close>

record conv_kwargs =
  kw_kernel_size :: "size3 option"
  kw_stride :: "size3 option"
  kw_padding :: "size3 option"
  kw_dilation :: "size3 option"
  kw_bias :: "bool option"

definition no_conv_kwargs :: conv_kwargs where
  "no_conv_kwargs = \<lparr>kw_kernel_size = None, kw_stride = None, kw_padding = None,
     kw_dilation = None, kw_bias = None\<rparr>"

text \<open>A parameter with a default: the value passed, or the default of the signature.\<close>

fun or_default :: "'a \<Rightarrow> 'a option \<Rightarrow> 'a" where
  "or_default d None = d"
| "or_default d (Some v) = v"

subsection \<open>Modules\<close>

datatype conv_class = Conv3d | Conv3dAuto

text \<open>The block classes that can be passed as \<open>block\<close>: they accept \<open>downsampling\<close>.\<close>

datatype block_class = ResNetResidualBlock | ResNetBasicBlock | ResNetBottleNeckBlock

text \<open>
  \<open>ReLU\<close>, \<open>LeakyReLU\<close> and \<open>SELU\<close> stand for the three instances the file creates:
  \<open>nn.ReLU(inplace=True)\<close>, \<open>nn.LeakyReLU(negative_slope=0.01, inplace=True)\<close> and
  \<open>nn.SELU(inplace=True)\<close>. \<open>ResidualBlock_obj\<close> is an instance of the base class
  \<open>ResidualBlock\<close>, \<open>ResNetBlock_obj\<close> one of \<open>ResNetResidualBlock\<close> or of a subclass;
  their fields are the attributes \<open>__init__\<close> sets (\<open>self.conv\<close>, which is not a
  submodule and is read only during construction, is not kept).
\<close>

datatype module =
    Conv (conv_cls: conv_class) (in_channels: int) (out_channels: int)
      (kernel_size: "int \<times> int \<times> int") (stride: "int \<times> int \<times> int")
      (padding: "int \<times> int \<times> int") (dilation: "int \<times> int \<times> int") (bias: bool)
  | BatchNorm3d (num_features: int)
  | ReLU
  | LeakyReLU
  | SELU
  | Identity
  | MaxPool3d (pool_kernel_size: int) (pool_stride: int) (pool_padding: int)
  | Sequential (children: "module list")
  | ModuleList (children: "module list")
  | ResidualBlock_obj (in_channels: int) (out_channels: int) (activation: string)
      (blocks: module) (activate: module) (shortcut: "module option")
  | ResNetBlock_obj (block_cls: block_class) (in_channels: int) (out_channels: int)
      (activation: string) (blocks: module) (activate: module) (shortcut: "module option")
      (expansion: int) (downsampling: int)
  | ResNetLayer (blocks: module)
  | ResNetEncoder (blocks_sizes: "int list") (in_out_block_sizes: "(int \<times> int) list")
      (gate: module) (blocks: module)

subsection \<open>Convolutions\<close>

text \<open>
  \<open>nn.Conv3d(in_channels, out_channels, kernel_size, stride=1, padding=0, dilation=1,
  bias=True)\<close> of the framework: \<open>kernel_size\<close> has no default, and every size is stored
  as a 3-tuple.
\<close>

definition Conv3d_init :: "int \<Rightarrow> int \<Rightarrow> conv_kwargs \<Rightarrow> py_error + module" where
  "Conv3d_init i o' kw =
     (case kw_kernel_size kw of
        None \<Rightarrow> Inl TypeError
      | Some k \<Rightarrow>
          Inr (Conv Conv3d i o' (triple k)
                 (triple (or_default (Single 1) (kw_stride kw)))
                 (triple (or_default (Single 0) (kw_padding kw)))
                 (triple (or_default (Single 1) (kw_dilation kw)))
                 (or_default True (kw_bias kw))))"

text \<open>
  \<open>Conv3dAuto.__init__\<close>: the constructor of \<open>nn.Conv3d\<close> on the same arguments, then
  \<open>self.padding\<close> is overwritten with the halved kernel size (\<open>//\<close> is floor division,
  as \<open>div\<close> on \<open>int\<close>).
\<close>

definition Conv3dAuto_init :: "int \<Rightarrow> int \<Rightarrow> conv_kwargs \<Rightarrow> py_error + module" where
  "Conv3dAuto_init i o' kw =
     (case Conv3d_init i o' kw of
        Inl e \<Rightarrow> Inl e
      | Inr self \<Rightarrow>
          (case kernel_size self of (k0, k1, k2) \<Rightarrow>
             Inr (Conv Conv3dAuto (in_channels self) (out_channels self) (kernel_size self)
                    (stride self) (k0 div 2, k1 div 2, k2 div 2) (dilation self) (bias self))))"

text \<open>
  \<open>functools.partial(f, **preset)(*a, **kw)\<close> calls \<open>f(*a, **{**preset, **kw})\<close>: a
  keyword of the call replaces the preset one.
\<close>

definition partial_kwargs :: "conv_kwargs \<Rightarrow> conv_kwargs \<Rightarrow> conv_kwargs" where
  "partial_kwargs preset kw =
     \<lparr>kw_kernel_size = (case kw_kernel_size kw of None \<Rightarrow> kw_kernel_size preset | Some v \<Rightarrow> Some v),
      kw_stride = (case kw_stride kw of None \<Rightarrow> kw_stride preset | Some v \<Rightarrow> Some v),
      kw_padding = (case kw_padding kw of None \<Rightarrow> kw_padding preset | Some v \<Rightarrow> Some v),
      kw_dilation = (case kw_dilation kw of None \<Rightarrow> kw_dilation preset | Some v \<Rightarrow> Some v),
      kw_bias = (case kw_bias kw of None \<Rightarrow> kw_bias preset | Some v \<Rightarrow> Some v)\<rparr>"

text \<open>A convolution factory: what the parameter \<open>conv\<close> of a block is called with.\<close>

type_synonym conv_fn = "int \<Rightarrow> int \<Rightarrow> conv_kwargs \<Rightarrow> py_error + module"

definition conv3x3 :: conv_fn where
  "conv3x3 i o' kw =
     Conv3dAuto_init i o'
       (partial_kwargs (no_conv_kwargs\<lparr>kw_kernel_size := Some (Single 3), kw_bias := Some False\<rparr>) kw)"

text \<open>\<open>conv_bn(in_channels, out_channels, conv, **kwargs)\<close>.\<close>

definition conv_bn :: "int \<Rightarrow> int \<Rightarrow> conv_fn \<Rightarrow> conv_kwargs \<Rightarrow> py_error + module" where
  "conv_bn i o' conv kw =
     (case conv i o' kw of
        Inl e \<Rightarrow> Inl e
      | Inr c \<Rightarrow> Inr (Sequential [c, BatchNorm3d o']))"

subsection \<open>Activations\<close>

text \<open>
  \<open>activation_func\<close> builds a \<open>ModuleDict\<close> of four entries and indexes it; indexing
  with a key that is not in the dictionary raises \<open>KeyError\<close>.
\<close>

definition activation_dict :: "(string \<times> module) list" where
  "activation_dict =
     [(''ReLU'', ReLU), (''leaky_ReLU'', LeakyReLU), (''SeLU'', SELU), (''none'', Identity)]"

definition activation_func :: "string \<Rightarrow> py_error + module" where
  "activation_func a =
     (case map_of activation_dict a of
        None \<Rightarrow> Inl KeyError
      | Some m \<Rightarrow> Inr m)"

subsection \<open>Residual blocks\<close>

text \<open>
  The keyword arguments that can reach a block class through \<open>**kwargs\<close> besides
  \<open>activation\<close>: the three named parameters of \<open>ResNetResidualBlock.__init__\<close>. The
  \<open>activation\<close> keyword, which \<open>ResNetEncoder\<close> puts into the \<open>**kwargs\<close> of
  \<open>ResNetLayer\<close> and that class passes on to the block, has an argument of its own in the
  constructors below. Every argument is passed by keyword; a call with further positional
  arguments binds them to these same parameters or raises \<open>TypeError\<close>, and so does any
  other keyword.
\<close>

record block_kwargs =
  kw_expansion :: "int option"
  kw_downsampling :: "int option"
  kw_conv :: "conv_fn option"

definition no_block_kwargs :: block_kwargs where
  "no_block_kwargs = \<lparr>kw_expansion = None, kw_downsampling = None, kw_conv = None\<rparr>"

text \<open>\<open>ResidualBlock.__init__(in_channels, out_channels, activation="ReLU")\<close>.\<close>

definition ResidualBlock_init :: "int \<Rightarrow> int \<Rightarrow> string option \<Rightarrow> py_error + module" where
  "ResidualBlock_init i o' act =
     (let a = or_default ''ReLU'' act in
      case activation_func a of
        Inl e \<Rightarrow> Inl e
      | Inr f \<Rightarrow> Inr (ResidualBlock_obj i o' a Identity f (Some Identity)))"

text \<open>
  The properties \<open>expanded_channels\<close> and \<open>should_apply_shortcut\<close>; the second is
  overridden in \<open>ResNetResidualBlock\<close>, and \<open>forward\<close> reads the one of the object's class.
\<close>

fun expanded_channels :: "module \<Rightarrow> int" where
  "expanded_channels (ResNetBlock_obj c i o' a b f s ex ds) = o' * ex"

fun should_apply_shortcut :: "module \<Rightarrow> bool" where
  "should_apply_shortcut (ResidualBlock_obj i o' a b f s) = (i \<noteq> o')"
| "should_apply_shortcut (ResNetBlock_obj c i o' a b f s ex ds) = (i \<noteq> o' * ex)"

text \<open>Assignments to the attributes \<open>shortcut\<close> and \<open>blocks\<close> of a block object.\<close>

fun set_shortcut :: "module option \<Rightarrow> module \<Rightarrow> module" where
  "set_shortcut s' (ResidualBlock_obj i o' a b f s) = ResidualBlock_obj i o' a b f s'"
| "set_shortcut s' (ResNetBlock_obj c i o' a b f s ex ds) = ResNetBlock_obj c i o' a b f s' ex ds"

fun set_blocks :: "module \<Rightarrow> module \<Rightarrow> module" where
  "set_blocks b' (ResidualBlock_obj i o' a b f s) = ResidualBlock_obj i o' a b' f s"
| "set_blocks b' (ResNetBlock_obj c i o' a b f s ex ds) = ResNetBlock_obj c i o' a b' f s ex ds"

text \<open>
  \<open>ResNetResidualBlock.__init__(in_channels, out_channels, expansion=1, downsampling=1,
  conv=conv3x3, **kwargs)\<close>, run on an object of class \<open>cls\<close>: the base constructor
  first, then the three attributes, then the shortcut, a 1x1x1 convolution with batch
  normalisation or \<open>None\<close>.
\<close>

definition ResNetResidualBlock_init ::
  "block_class \<Rightarrow> int \<Rightarrow> int \<Rightarrow> string option \<Rightarrow> block_kwargs \<Rightarrow> py_error + module" where
  "ResNetResidualBlock_init cls i o' act kw =
     (case ResidualBlock_init i o' act of
        Inl e \<Rightarrow> Inl e
      | Inr base \<Rightarrow>
          (let self = ResNetBlock_obj cls (in_channels base) (out_channels base)
                        (activation base) (blocks base) (activate base) (shortcut base)
                        (or_default 1 (kw_expansion kw)) (or_default 1 (kw_downsampling kw))
           in if should_apply_shortcut self
              then (case Conv3d_init (in_channels self) (expanded_channels self)
                           (no_conv_kwargs\<lparr>kw_kernel_size := Some (Single 1),
                              kw_stride := Some (Single (downsampling self)),
                              kw_bias := Some False\<rparr>) of
                      Inl e \<Rightarrow> Inl e
                    | Inr c \<Rightarrow>
                        Inr (set_shortcut
                               (Some (Sequential [c, BatchNorm3d (expanded_channels self)])) self))
              else Inr (set_shortcut None self)))"

text \<open>
  \<open>ResNetBasicBlock.__init__\<close>; \<open>self.conv\<close> is the \<open>conv\<close> argument or its default.
\<close>

definition ResNetBasicBlock_init ::
  "int \<Rightarrow> int \<Rightarrow> string option \<Rightarrow> block_kwargs \<Rightarrow> py_error + module" where
  "ResNetBasicBlock_init i o' act kw =
     (case ResNetResidualBlock_init ResNetBasicBlock i o' act kw of
        Inl e \<Rightarrow> Inl e
      | Inr self \<Rightarrow>
          (let conv = or_default conv3x3 (kw_conv kw) in
           case conv_bn (in_channels self) (out_channels self) conv
                  (no_conv_kwargs\<lparr>kw_bias := Some False,
                     kw_stride := Some (Single (downsampling self))\<rparr>) of
             Inl e \<Rightarrow> Inl e
           | Inr c1 \<Rightarrow>
               (case activation_func (activation self) of
                  Inl e \<Rightarrow> Inl e
                | Inr a1 \<Rightarrow>
                    (case conv_bn (out_channels self) (expanded_channels self) conv
                            (no_conv_kwargs\<lparr>kw_bias := Some False\<rparr>) of
                       Inl e \<Rightarrow> Inl e
                     | Inr c2 \<Rightarrow> Inr (set_blocks (Sequential [c1, a1, c2]) self)))))"

text \<open>
  \<open>ResNetBottleNeckBlock.__init__\<close>: it passes \<open>expansion=4\<close> next to \<open>**kwargs\<close>, so
  an \<open>expansion\<close> keyword of the caller is a second value for the same parameter, a
  \<open>TypeError\<close>.
\<close>

definition ResNetBottleNeckBlock_init ::
  "int \<Rightarrow> int \<Rightarrow> string option \<Rightarrow> block_kwargs \<Rightarrow> py_error + module" where
  "ResNetBottleNeckBlock_init i o' act kw =
     (if kw_expansion kw \<noteq> None then Inl TypeError
      else
        case ResNetResidualBlock_init ResNetBottleNeckBlock i o' act
               (kw\<lparr>kw_expansion := Some 4\<rparr>) of
          Inl e \<Rightarrow> Inl e
        | Inr self \<Rightarrow>
            (let conv = or_default conv3x3 (kw_conv kw) in
             case conv_bn (in_channels self) (out_channels self) conv
                    (no_conv_kwargs\<lparr>kw_kernel_size := Some (Single 1)\<rparr>) of
               Inl e \<Rightarrow> Inl e
             | Inr c1 \<Rightarrow>
                 (case activation_func (activation self) of
                    Inl e \<Rightarrow> Inl e
                  | Inr a1 \<Rightarrow>
                      (case conv_bn (out_channels self) (out_channels self) conv
                              (no_conv_kwargs\<lparr>kw_kernel_size := Some (Single 3),
                                 kw_stride := Some (Single (downsampling self))\<rparr>) of
                         Inl e \<Rightarrow> Inl e
                       | Inr c2 \<Rightarrow>
                           (case activation_func (activation self) of
                              Inl e \<Rightarrow> Inl e
                            | Inr a2 \<Rightarrow>
                                (case conv_bn (out_channels self) (expanded_channels self) conv
                                        (no_conv_kwargs\<lparr>kw_kernel_size := Some (Single 1)\<rparr>) of
                                   Inl e \<Rightarrow> Inl e
                                 | Inr c3 \<Rightarrow>
                                     Inr (set_blocks (Sequential [c1, a1, c2, a2, c3]) self)))))))"

text \<open>Calling a block class, and reading its class attribute \<open>expansion\<close>.\<close>

fun instantiate ::
  "block_class \<Rightarrow> int \<Rightarrow> int \<Rightarrow> string option \<Rightarrow> block_kwargs \<Rightarrow> py_error + module" where
  "instantiate ResNetResidualBlock i o' act kw =
     ResNetResidualBlock_init ResNetResidualBlock i o' act kw"
| "instantiate ResNetBasicBlock i o' act kw = ResNetBasicBlock_init i o' act kw"
| "instantiate ResNetBottleNeckBlock i o' act kw = ResNetBottleNeckBlock_init i o' act kw"

fun class_expansion :: "block_class \<Rightarrow> py_error + int" where
  "class_expansion ResNetResidualBlock = Inl AttributeError"
| "class_expansion ResNetBasicBlock = Inr 1"
| "class_expansion ResNetBottleNeckBlock = Inr 4"

subsection \<open>Layers\<close>

text \<open>Evaluating a list of constructions in order: the first raise ends it.\<close>

fun collect :: "(py_error + 'a) list \<Rightarrow> py_error + 'a list" where
  "collect [] = Inr []"
| "collect (r # rs) =
     (case r of
        Inl e \<Rightarrow> Inl e
      | Inr v \<Rightarrow> (case collect rs of Inl e \<Rightarrow> Inl e | Inr vs \<Rightarrow> Inr (v # vs)))"

text \<open>
  \<open>block(in_channels, out_channels, **kwargs, downsampling=d)\<close>: a \<open>downsampling\<close>
  keyword inside \<open>kwargs\<close> is a second value for the parameter.
\<close>

definition block_with_downsampling ::
  "block_class \<Rightarrow> int \<Rightarrow> int \<Rightarrow> string option \<Rightarrow> block_kwargs \<Rightarrow> int \<Rightarrow> py_error + module" where
  "block_with_downsampling block i o' act kw d =
     (if kw_downsampling kw \<noteq> None then Inl TypeError
      else instantiate block i o' act (kw\<lparr>kw_downsampling := Some d\<rparr>))"

text \<open>
  One element of the list comprehension of \<open>ResNetLayer.__init__\<close>:
  \<open>block(out_channels * block.expansion, out_channels, downsampling=1, **kwargs)\<close>.
\<close>

definition following_block ::
  "block_class \<Rightarrow> int \<Rightarrow> string option \<Rightarrow> block_kwargs \<Rightarrow> py_error + module" where
  "following_block block o' act kw =
     (case class_expansion block of
        Inl e \<Rightarrow> Inl e
      | Inr ex \<Rightarrow> block_with_downsampling block (o' * ex) o' act kw 1)"

text \<open>
  \<open>ResNetLayer.__init__(in_channels, out_channels, block=ResNetBasicBlock, n=1,
  **kwargs)\<close>; \<open>range(n - 1)\<close> is empty when \<open>n \<le> 1\<close>.
\<close>

definition ResNetLayer_init ::
  "int \<Rightarrow> int \<Rightarrow> block_class option \<Rightarrow> int option \<Rightarrow> string option \<Rightarrow> block_kwargs
     \<Rightarrow> py_error + module" where
  "ResNetLayer_init i o' block_arg n_arg act kw =
     (let block = or_default ResNetBasicBlock block_arg;
          n = or_default 1 n_arg;
          downsampling = (if i \<noteq> o' then 2 else 1)
      in case block_with_downsampling block i o' act kw downsampling of
           Inl e \<Rightarrow> Inl e
         | Inr b \<Rightarrow>
             (case collect (map (\<lambda>_. following_block block o' act kw) [0..<nat (n - 1)]) of
                Inl e \<Rightarrow> Inl e
              | Inr bs \<Rightarrow> Inr (ResNetLayer (Sequential (b # bs)))))"

subsection \<open>The encoder\<close>

text \<open>
  One element of the list comprehension of \<open>ResNetEncoder.__init__\<close>:
  \<open>ResNetLayer(in_channels * block.expansion, out_channels, n=n, activation=activation,
  block=block, **kwargs)\<close>.
\<close>

definition following_layer ::
  "block_class \<Rightarrow> string \<Rightarrow> block_kwargs \<Rightarrow> (int \<times> int) \<times> int \<Rightarrow> py_error + module" where
  "following_layer block act kw ion =
     (case ion of ((i, o'), n) \<Rightarrow>
        (case class_expansion block of
           Inl e \<Rightarrow> Inl e
         | Inr ex \<Rightarrow> ResNetLayer_init (i * ex) o' (Some block) (Some n) (Some act) kw))"

text \<open>
  \<open>ResNetEncoder.__init__(in_channels=3, blocks_sizes=[64, 128, 256, 512],
  depths=[2, 2, 2, 2], activation='ReLU', block=ResNetBasicBlock, **kwargs)\<close>. Indexing an
  empty list raises \<open>IndexError\<close>; \<open>xs[1:]\<close> is \<open>drop 1 xs\<close>; \<open>zip\<close> stops at the shorter
  list.
\<close>

definition ResNetEncoder_init ::
  "int option \<Rightarrow> int list option \<Rightarrow> int list option \<Rightarrow> string option \<Rightarrow> block_class option
     \<Rightarrow> block_kwargs \<Rightarrow> py_error + module" where
  "ResNetEncoder_init in_channels_arg blocks_sizes_arg depths_arg activation_arg block_arg kw =
     (let ic = or_default 3 in_channels_arg;
          sizes = or_default [64, 128, 256, 512] blocks_sizes_arg;
          depths = or_default [2, 2, 2, 2] depths_arg;
          act = or_default ''ReLU'' activation_arg;
          block = or_default ResNetBasicBlock block_arg
      in case sizes of
           [] \<Rightarrow> Inl IndexError
         | s0 # _ \<Rightarrow>
             (case Conv3d_init ic s0
                     (no_conv_kwargs\<lparr>kw_kernel_size := Some (Single 7),
                        kw_stride := Some (Single 2), kw_padding := Some (Single 3),
                        kw_bias := Some False\<rparr>) of
                Inl e \<Rightarrow> Inl e
              | Inr c \<Rightarrow>
                  (case activation_func act of
                     Inl e \<Rightarrow> Inl e
                   | Inr a \<Rightarrow>
                       (let g = Sequential [c, BatchNorm3d s0, a, MaxPool3d 3 2 1];
                            in_out = zip sizes (drop 1 sizes)
                        in case depths of
                             [] \<Rightarrow> Inl IndexError
                           | d0 # _ \<Rightarrow>
                               (case ResNetLayer_init s0 s0 (Some block) (Some d0) (Some act) kw of
                                  Inl e \<Rightarrow> Inl e
                                | Inr l0 \<Rightarrow>
                                    (case collect (map (following_layer block act kw)
                                                     (zip in_out (drop 1 depths))) of
                                       Inl e \<Rightarrow> Inl e
                                     | Inr ls \<Rightarrow>
                                         Inr (ResNetEncoder sizes in_out g
                                                (ModuleList (l0 # ls)))))))))"

text \<open>
  \<open>resnet18\<close> and \<open>resnet34\<close>: \<open>ResNetEncoder(in_channels, block=block, depths=...,
  **kwargs)\<close>. Their \<open>**kwargs\<close> can name the remaining parameters of the encoder and
  the keywords of the blocks; a \<open>depths\<close> keyword is a second value for the parameter.
\<close>

record encoder_kwargs =
  kw_blocks_sizes :: "int list option"
  kw_depths :: "int list option"
  kw_activation :: "string option"
  kw_block :: block_kwargs

definition no_encoder_kwargs :: encoder_kwargs where
  "no_encoder_kwargs = \<lparr>kw_blocks_sizes = None, kw_depths = None, kw_activation = None,
     kw_block = no_block_kwargs\<rparr>"

definition resnet18 :: "int \<Rightarrow> block_class option \<Rightarrow> encoder_kwargs \<Rightarrow> py_error + module" where
  "resnet18 ic block_arg kw =
     (let block = or_default ResNetBasicBlock block_arg
      in if kw_depths kw \<noteq> None then Inl TypeError
         else ResNetEncoder_init (Some ic) (kw_blocks_sizes kw) (Some [2, 2, 2, 2])
                (kw_activation kw) (Some block) (kw_block kw))"

definition resnet34 :: "int \<Rightarrow> block_class option \<Rightarrow> encoder_kwargs \<Rightarrow> py_error + module" where
  "resnet34 ic block_arg kw =
     (let block = or_default ResNetBasicBlock block_arg
      in if kw_depths kw \<noteq> None then Inl TypeError
         else ResNetEncoder_init (Some ic) (kw_blocks_sizes kw) (Some [3, 4, 6, 3])
                (kw_activation kw) (Some block) (kw_block kw))"

subsection \<open>Forward\<close>

text \<open>
  What the framework contributes to a forward pass over tensors of type \<open>'x\<close>: the result
  of a leaf module (convolution, batch normalisation, activation, pooling) on a tensor,
  and the in-place addition \<open>x += residual\<close>. Either can raise, for instance on a shape
  mismatch. Tensors are values here: the effect of the in-place operations on the
  caller's tensor is not modelled.
\<close>

record 'x framework =
  leaf :: "module \<Rightarrow> 'x \<Rightarrow> py_error + 'x"
  iadd :: "'x \<Rightarrow> 'x \<Rightarrow> py_error + 'x"

text \<open>
  Calling a module runs its \<open>forward\<close>. \<open>Sequential\<close> feeds each child the result of the
  one before it, \<open>Identity\<close> returns its argument, \<open>ModuleList\<close> has no \<open>forward\<close>.
  Calling \<open>None\<close> raises \<open>TypeError\<close>. \<open>ResidualBlock.forward\<close> is inherited by every
  block class; \<open>ResNetEncoder.forward\<close> iterates over \<open>self.blocks\<close>.
\<close>

fun forward :: "'x framework \<Rightarrow> module \<Rightarrow> 'x \<Rightarrow> py_error + 'x"
  and forward_each :: "'x framework \<Rightarrow> module list \<Rightarrow> 'x \<Rightarrow> py_error + 'x" where
  "forward fw (Sequential ms) x = forward_each fw ms x"
| "forward fw (ModuleList ms) x = Inl NotImplementedError"
| "forward fw Identity x = Inr x"
| "forward fw (ResidualBlock_obj i o' a b f s) x =
     (case (if i \<noteq> o'
            then (case s of None \<Rightarrow> Inl TypeError | Some sc \<Rightarrow> forward fw sc x)
            else Inr x) of
        Inl e \<Rightarrow> Inl e
      | Inr residual \<Rightarrow>
          (case forward fw b x of
             Inl e \<Rightarrow> Inl e
           | Inr y \<Rightarrow>
               (case iadd fw y residual of
                  Inl e \<Rightarrow> Inl e
                | Inr z \<Rightarrow> forward fw f z)))"
| "forward fw (ResNetBlock_obj c i o' a b f s ex ds) x =
     (case (if i \<noteq> o' * ex
            then (case s of None \<Rightarrow> Inl TypeError | Some sc \<Rightarrow> forward fw sc x)
            else Inr x) of
        Inl e \<Rightarrow> Inl e
      | Inr residual \<Rightarrow>
          (case forward fw b x of
             Inl e \<Rightarrow> Inl e
           | Inr y \<Rightarrow>
               (case iadd fw y residual of
                  Inl e \<Rightarrow> Inl e
                | Inr z \<Rightarrow> forward fw f z)))"
| "forward fw (ResNetLayer b) x = forward fw b x"
| "forward fw (ResNetEncoder sizes in_out g (ModuleList ls)) x =
     (case forward fw g x of
        Inl e \<Rightarrow> Inl e
      | Inr y \<Rightarrow> forward_each fw ls y)"
| "forward fw (ResNetEncoder sizes in_out g (Sequential ls)) x =
     (case forward fw g x of
        Inl e \<Rightarrow> Inl e
      | Inr y \<Rightarrow> forward_each fw ls y)"
| "forward fw (ResNetEncoder sizes in_out g bl) x =
     (case forward fw g x of
        Inl e \<Rightarrow> Inl e
      | Inr y \<Rightarrow> Inl TypeError)"
| "forward fw m x = leaf fw m x"
| "forward_each fw [] x = Inr x"
| "forward_each fw (m # ms) x =
     (case forward fw m x of
        Inl e \<Rightarrow> Inl e
      | Inr y \<Rightarrow> forward_each fw ms y)"

subsection \<open>Notions the properties are stated with\<close>

text \<open>Sequencing of results: a raise ends the computation.\<close>

definition and_then :: "py_error + 'a \<Rightarrow> ('a \<Rightarrow> py_error + 'b) \<Rightarrow> py_error + 'b" where
  "and_then r f = (case r of Inl e \<Rightarrow> Inl e | Inr v \<Rightarrow> f v)"

text \<open>Calling the value of an attribute that holds a module or \<open>None\<close>.\<close>

definition call :: "'x framework \<Rightarrow> module option \<Rightarrow> 'x \<Rightarrow> py_error + 'x" where
  "call fw m x = (case m of None \<Rightarrow> Inl TypeError | Some f \<Rightarrow> forward fw f x)"

text \<open>
  The residual composition as the specification words it: the shortcut applied to \<open>x\<close>
  when the block's \<open>should_apply_shortcut\<close> holds and \<open>x\<close> itself otherwise, the main
  blocks applied to \<open>x\<close>, the residual added to their result, the activation applied.
\<close>

definition residual_composition :: "'x framework \<Rightarrow> module \<Rightarrow> 'x \<Rightarrow> py_error + 'x" where
  "residual_composition fw self x =
     and_then (if should_apply_shortcut self then call fw (shortcut self) x else Inr x)
       (\<lambda>residual.
          and_then (forward fw (blocks self) x)
            (\<lambda>y. and_then (iadd fw y residual) (\<lambda>z. forward fw (activate self) z)))"

text \<open>Applying a list of modules one after the other, in list order.\<close>

definition in_sequence :: "'x framework \<Rightarrow> module list \<Rightarrow> 'x \<Rightarrow> py_error + 'x" where
  "in_sequence fw ms x = foldl (\<lambda>r m. and_then r (forward fw m)) (Inr x) ms"




text \<open>The number of blocks in each layer of an encoder.\<close>

definition depth_profile :: "module \<Rightarrow> nat list" where
  "depth_profile enc = map (\<lambda>l. length (children (blocks l))) (children (blocks enc))"



text \<open>
  The value of the attribute \<open>expansion\<close> of an instance: \<open>ResNetBottleNeckBlock\<close> passes
  4, the other classes leave the parameter to the caller and its default 1.
\<close>

definition instance_expansion :: "block_class \<Rightarrow> block_kwargs \<Rightarrow> int" where
  "instance_expansion cls kw =
     (if cls = ResNetBottleNeckBlock then 4 else or_default 1 (kw_expansion kw))"

text \<open>
  A block of class \<open>cls\<close> as the constructors leave it, up to its main path (which the
  subclass and the convolution factory determine): the attributes and the shortcut.
\<close>

definition block_built ::
  "block_class \<Rightarrow> int \<Rightarrow> int \<Rightarrow> string option \<Rightarrow> int \<Rightarrow> int \<Rightarrow> module \<Rightarrow> bool" where
  "block_built cls i o' act ex d b \<longleftrightarrow>
     (\<exists>blk f. activation_func (or_default ''ReLU'' act) = Inr f \<and>
        b = ResNetBlock_obj cls i o' (or_default ''ReLU'' act) blk f
              (if i \<noteq> o' * ex
               then Some (Sequential
                      [Conv Conv3d i (o' * ex) (1, 1, 1) (d, d, d) (0, 0, 0) (1, 1, 1) False,
                       BatchNorm3d (o' * ex)])
               else None)
              ex d)"

text \<open>
  A framework for running \<open>forward\<close> on numbers: every leaf module adds one, the
  in-place addition adds.
\<close>

definition counting :: "int framework" where
  "counting = \<lparr>leaf = (\<lambda>m x. Inr (x + 1)), iadd = (\<lambda>x y. Inr (x + y))\<rparr>"

section \<open>Properties of the constructors\<close>

lemma activation_func_simps:
  "activation_func ''ReLU'' = Inr ReLU"
  "activation_func ''leaky_ReLU'' = Inr LeakyReLU"
  "activation_func ''SeLU'' = Inr SELU"
  "activation_func ''none'' = Inr Identity"
  by (simp_all add: activation_func_def activation_dict_def)

lemma activation_func_KeyError:
  "a \<notin> {''ReLU'', ''leaky_ReLU'', ''SeLU'', ''none''} \<Longrightarrow> activation_func a = Inl KeyError"
  by (simp add: activation_func_def activation_dict_def)


lemma ResNetResidualBlock_init_eq:
  "ResNetResidualBlock_init cls i o' act kw =
     (case activation_func (or_default ''ReLU'' act) of
        Inl e \<Rightarrow> Inl e
      | Inr f \<Rightarrow>
          Inr (ResNetBlock_obj cls i o' (or_default ''ReLU'' act) Identity f
                 (if i \<noteq> o' * or_default 1 (kw_expansion kw)
                  then Some (Sequential
                         [Conv Conv3d i (o' * or_default 1 (kw_expansion kw)) (1, 1, 1)
                            (or_default 1 (kw_downsampling kw), or_default 1 (kw_downsampling kw),
                             or_default 1 (kw_downsampling kw))
                            (0, 0, 0) (1, 1, 1) False,
                          BatchNorm3d (o' * or_default 1 (kw_expansion kw))])
                  else None)
                 (or_default 1 (kw_expansion kw)) (or_default 1 (kw_downsampling kw))))"
  by (simp add: ResNetResidualBlock_init_def ResidualBlock_init_def Conv3d_init_def
      no_conv_kwargs_def Let_def split: sum.splits)

lemma instantiate_built:
  assumes "instantiate cls i o' act kw = Inr b"
  shows "block_built cls i o' act
           (if cls = ResNetBottleNeckBlock then 4 else or_default 1 (kw_expansion kw))
           (or_default 1 (kw_downsampling kw)) b"
proof (cases cls)
  case ResNetResidualBlock
  with assms show ?thesis
    by (auto simp: block_built_def ResNetResidualBlock_init_eq split: sum.splits)
next
  case ResNetBasicBlock
  with assms show ?thesis
    by (auto simp: block_built_def ResNetBasicBlock_init_def ResNetResidualBlock_init_eq Let_def
        split: sum.splits)
next
  case ResNetBottleNeckBlock
  with assms show ?thesis
    by (auto simp: block_built_def ResNetBottleNeckBlock_init_def ResNetResidualBlock_init_eq
        Let_def split: sum.splits if_splits)
qed


lemma collect_map_Inr:
  "collect (map f xs) = Inr ys \<Longrightarrow> list_all2 (\<lambda>x y. f x = Inr y) xs ys"
  by (induction xs arbitrary: ys) (auto split: sum.splits)

lemma collect_map_const:
  "collect (map (\<lambda>_. r) xs) = Inr ys \<Longrightarrow> length ys = length xs \<and> (\<forall>y \<in> set ys. r = Inr y)"
  by (induction xs arbitrary: ys) (auto split: sum.splits)

lemma collect_all_Inr:
  "\<forall>x \<in> set xs. \<exists>y. f x = Inr y \<Longrightarrow> \<exists>ys. collect (map f xs) = Inr ys"
proof (induction xs)
  case Nil
  then show ?case by simp
next
  case (Cons a xs)
  then obtain y ys where "f a = Inr y" "collect (map f xs) = Inr ys" by auto
  then show ?case by simp
qed

lemma block_with_downsampling_built:
  assumes "block_with_downsampling cls i o' act kw d = Inr b"
  shows "kw_downsampling kw = None \<and> block_built cls i o' act (instance_expansion cls kw) d b"
proof -
  from assms have none: "kw_downsampling kw = None"
    and inst: "instantiate cls i o' act (kw\<lparr>kw_downsampling := Some d\<rparr>) = Inr b"
    by (auto simp: block_with_downsampling_def split: if_splits)
  from instantiate_built [OF inst] none show ?thesis
    by (auto simp: instance_expansion_def)
qed

lemma ResNetLayer_init_Inr:
  assumes "ResNetLayer_init i o' block n act kw = Inr l"
  shows "\<exists>b bs. l = ResNetLayer (Sequential (b # bs)) \<and>
           length bs = nat (or_default 1 n - 1) \<and>
           kw_downsampling kw = None \<and>
           block_built (or_default ResNetBasicBlock block) i o' act
             (instance_expansion (or_default ResNetBasicBlock block) kw) (if i \<noteq> o' then 2 else 1) b \<and>
           (\<forall>b' \<in> set bs. \<exists>ex. class_expansion (or_default ResNetBasicBlock block) = Inr ex \<and>
              block_built (or_default ResNetBasicBlock block) (o' * ex) o' act
                (instance_expansion (or_default ResNetBasicBlock block) kw) 1 b')"
proof -
  define B where "B = or_default ResNetBasicBlock block"
  from assms obtain b bs where
    b: "block_with_downsampling B i o' act kw (if i \<noteq> o' then 2 else 1) = Inr b"
    and bs: "collect (map (\<lambda>_. following_block B o' act kw) [0..<nat (or_default 1 n - 1)]) = Inr bs"
    and l: "l = ResNetLayer (Sequential (b # bs))"
    by (auto simp: ResNetLayer_init_def Let_def B_def split: sum.splits)
  from collect_map_const [OF bs] have len: "length bs = nat (or_default 1 n - 1)"
    and each: "\<forall>b' \<in> set bs. following_block B o' act kw = Inr b'"
    by auto
  have "\<exists>ex. class_expansion B = Inr ex \<and>
          block_built B (o' * ex) o' act (instance_expansion B kw) 1 b'"
    if "b' \<in> set bs" for b'
  proof -
    from each that have "following_block B o' act kw = Inr b'" by blast
    then obtain ex where ex: "class_expansion B = Inr ex"
      and bw: "block_with_downsampling B (o' * ex) o' act kw 1 = Inr b'"
      by (auto simp: following_block_def split: sum.splits)
    from block_with_downsampling_built [OF bw] ex show ?thesis by blast
  qed
  with block_with_downsampling_built [OF b] l len show ?thesis
    unfolding B_def by blast
qed

lemma conv3x3_eq:
  "conv3x3 i o' kw =
     (case triple (or_default (Single 3) (kw_kernel_size kw)) of (k0, k1, k2) \<Rightarrow>
        Inr (Conv Conv3dAuto i o' (k0, k1, k2)
               (triple (or_default (Single 1) (kw_stride kw)))
               (k0 div 2, k1 div 2, k2 div 2)
               (triple (or_default (Single 1) (kw_dilation kw)))
               (or_default False (kw_bias kw))))"
  by (cases "kw_kernel_size kw"; cases "kw_stride kw"; cases "kw_dilation kw"; cases "kw_bias kw";
      cases "kw_padding kw")
    (simp_all add: conv3x3_def Conv3dAuto_init_def Conv3d_init_def partial_kwargs_def
      no_conv_kwargs_def split: prod.splits)


lemma ResNetEncoder_init_Inr:
  assumes "ResNetEncoder_init ic sizes depths act block kw = Inr enc"
  shows "\<exists>s0 ss d0 ds a l0 ls.
           or_default [64, 128, 256, 512] sizes = s0 # ss \<and>
           or_default [2, 2, 2, 2] depths = d0 # ds \<and>
           activation_func (or_default ''ReLU'' act) = Inr a \<and>
           enc = ResNetEncoder (s0 # ss) (zip (s0 # ss) ss)
                   (Sequential [Conv Conv3d (or_default 3 ic) s0 (7, 7, 7) (2, 2, 2) (3, 3, 3)
                                  (1, 1, 1) False,
                                BatchNorm3d s0, a, MaxPool3d 3 2 1])
                   (ModuleList (l0 # ls)) \<and>
           ResNetLayer_init s0 s0 (Some (or_default ResNetBasicBlock block)) (Some d0)
             (Some (or_default ''ReLU'' act)) kw = Inr l0 \<and>
           list_all2 (\<lambda>ion l. following_layer (or_default ResNetBasicBlock block)
                                 (or_default ''ReLU'' act) kw ion = Inr l)
             (zip (zip (s0 # ss) ss) ds) ls"
proof -
  define S where "S = or_default [64, 128, 256, 512] sizes"
  define D where "D = or_default [2, 2, 2, 2] depths"
  from assms obtain s0 ss where S: "S = s0 # ss"
    by (cases S) (auto simp: ResNetEncoder_init_def Let_def S_def)
  from assms S obtain a where a: "activation_func (or_default ''ReLU'' act) = Inr a"
    by (cases "activation_func (or_default ''ReLU'' act)")
      (auto simp: ResNetEncoder_init_def Let_def S_def Conv3d_init_def no_conv_kwargs_def)
  from assms S a obtain d0 ds where D: "D = d0 # ds"
    by (cases D)
      (auto simp: ResNetEncoder_init_def Let_def S_def D_def Conv3d_init_def no_conv_kwargs_def)
  from assms S a D obtain l0 ls where
    l0: "ResNetLayer_init s0 s0 (Some (or_default ResNetBasicBlock block)) (Some d0)
           (Some (or_default ''ReLU'' act)) kw = Inr l0"
    and ls: "collect (map (following_layer (or_default ResNetBasicBlock block)
                             (or_default ''ReLU'' act) kw)
                        (zip (zip (s0 # ss) ss) ds)) = Inr ls"
    and enc: "enc = ResNetEncoder (s0 # ss) (zip (s0 # ss) ss)
                   (Sequential [Conv Conv3d (or_default 3 ic) s0 (7, 7, 7) (2, 2, 2) (3, 3, 3)
                                  (1, 1, 1) False,
                                BatchNorm3d s0, a, MaxPool3d 3 2 1])
                   (ModuleList (l0 # ls))"
    by (auto simp: ResNetEncoder_init_def Let_def S_def D_def Conv3d_init_def no_conv_kwargs_def
        split: sum.splits)
  from collect_map_Inr [OF ls] S D a l0 enc show ?thesis
    unfolding S_def D_def by blast
qed


lemma ResNetBasicBlock_init_conv3x3:
  assumes "kw_conv kw = None"
  shows "ResNetBasicBlock_init i o' act kw =
     (case activation_func (or_default ''ReLU'' act) of
        Inl e \<Rightarrow> Inl e
      | Inr f \<Rightarrow>
          (let ex = or_default 1 (kw_expansion kw); d = or_default 1 (kw_downsampling kw) in
           Inr (ResNetBlock_obj ResNetBasicBlock i o' (or_default ''ReLU'' act)
                 (Sequential
                    [Sequential [Conv Conv3dAuto i o' (3, 3, 3) (d, d, d) (1, 1, 1) (1, 1, 1) False,
                                 BatchNorm3d o'],
                     f,
                     Sequential [Conv Conv3dAuto o' (o' * ex) (3, 3, 3) (1, 1, 1) (1, 1, 1)
                                   (1, 1, 1) False,
                                 BatchNorm3d (o' * ex)]])
                 f
                 (if i \<noteq> o' * ex
                  then Some (Sequential
                         [Conv Conv3d i (o' * ex) (1, 1, 1) (d, d, d) (0, 0, 0) (1, 1, 1) False,
                          BatchNorm3d (o' * ex)])
                  else None)
                 ex d)))"
  using assms
  by (simp add: ResNetBasicBlock_init_def ResNetResidualBlock_init_eq conv_bn_def conv3x3_eq
      no_conv_kwargs_def Let_def split: sum.splits)

lemma ResNetBottleNeckBlock_init_conv3x3:
  assumes "kw_conv kw = None"
  shows "ResNetBottleNeckBlock_init i o' act kw =
     (if kw_expansion kw \<noteq> None then Inl TypeError else
      case activation_func (or_default ''ReLU'' act) of
        Inl e \<Rightarrow> Inl e
      | Inr f \<Rightarrow>
          (let d = or_default 1 (kw_downsampling kw) in
           Inr (ResNetBlock_obj ResNetBottleNeckBlock i o' (or_default ''ReLU'' act)
                 (Sequential
                    [Sequential [Conv Conv3dAuto i o' (1, 1, 1) (1, 1, 1) (0, 0, 0) (1, 1, 1) False,
                                 BatchNorm3d o'],
                     f,
                     Sequential [Conv Conv3dAuto o' o' (3, 3, 3) (d, d, d) (1, 1, 1) (1, 1, 1) False,
                                 BatchNorm3d o'],
                     f,
                     Sequential [Conv Conv3dAuto o' (o' * 4) (1, 1, 1) (1, 1, 1) (0, 0, 0)
                                   (1, 1, 1) False,
                                 BatchNorm3d (o' * 4)]])
                 f
                 (if i \<noteq> o' * 4
                  then Some (Sequential
                         [Conv Conv3d i (o' * 4) (1, 1, 1) (d, d, d) (0, 0, 0) (1, 1, 1) False,
                          BatchNorm3d (o' * 4)])
                  else None)
                 4 d)))"
  using assms
  by (simp add: ResNetBottleNeckBlock_init_def ResNetResidualBlock_init_eq conv_bn_def conv3x3_eq
      no_conv_kwargs_def Let_def split: sum.splits)

lemma instantiate_succeeds:
  assumes "activation_func (or_default ''ReLU'' act) = Inr f"
    and "kw_conv kw = None"
    and "cls = ResNetBottleNeckBlock \<longrightarrow> kw_expansion kw = None"
  shows "\<exists>b. instantiate cls i o' act kw = Inr b"
  using assms
  by (cases cls)
    (simp_all add: ResNetBasicBlock_init_conv3x3 ResNetBottleNeckBlock_init_conv3x3
      ResNetResidualBlock_init_eq Let_def)

lemma block_with_downsampling_succeeds:
  assumes "activation_func (or_default ''ReLU'' act) = Inr f"
    and "kw_conv kw = None" and "kw_downsampling kw = None"
    and "cls = ResNetBottleNeckBlock \<longrightarrow> kw_expansion kw = None"
  shows "\<exists>b. block_with_downsampling cls i o' act kw d = Inr b"
  using instantiate_succeeds [of act f "kw\<lparr>kw_downsampling := Some d\<rparr>" cls i o'] assms
  by (simp add: block_with_downsampling_def)

lemma ResNetLayer_init_succeeds:
  assumes "activation_func (or_default ''ReLU'' act) = Inr f"
    and "kw_conv kw = None" and "kw_downsampling kw = None"
    and "or_default ResNetBasicBlock block \<noteq> ResNetResidualBlock"
    and "or_default ResNetBasicBlock block = ResNetBottleNeckBlock \<longrightarrow> kw_expansion kw = None"
  shows "\<exists>l. ResNetLayer_init i o' block n act kw = Inr l"
proof -
  define B where "B = or_default ResNetBasicBlock block"
  from assms(4) obtain ex where ex: "class_expansion B = Inr ex"
    unfolding B_def by (cases "or_default ResNetBasicBlock block") auto
  from block_with_downsampling_succeeds [OF assms(1-3), of B] assms(5)
  obtain b where b: "block_with_downsampling B i o' act kw (if i \<noteq> o' then 2 else 1) = Inr b"
    unfolding B_def by blast
  from block_with_downsampling_succeeds [OF assms(1-3), of B] assms(5)
  obtain b' where "block_with_downsampling B (o' * ex) o' act kw 1 = Inr b'"
    unfolding B_def by blast
  with ex have "following_block B o' act kw = Inr b'"
    by (simp add: following_block_def)
  then have "\<forall>k \<in> set [0..<nat (or_default 1 n - 1)].
      \<exists>y. (\<lambda>_. following_block B o' act kw) k = Inr y"
    by simp
  from collect_all_Inr [OF this] obtain bs where
    "collect (map (\<lambda>_. following_block B o' act kw) [0..<nat (or_default 1 n - 1)]) = Inr bs"
    by blast
  with b show ?thesis
    by (simp add: ResNetLayer_init_def Let_def B_def)
qed

lemma ResNetEncoder_init_succeeds:
  assumes "or_default [64, 128, 256, 512] sizes \<noteq> []"
    and "or_default [2, 2, 2, 2] depths \<noteq> []"
    and "activation_func (or_default ''ReLU'' act) = Inr f"
    and "kw_conv kw = None" and "kw_downsampling kw = None"
    and "or_default ResNetBasicBlock block \<noteq> ResNetResidualBlock"
    and "or_default ResNetBasicBlock block = ResNetBottleNeckBlock \<longrightarrow> kw_expansion kw = None"
  shows "\<exists>enc. ResNetEncoder_init ic sizes depths act block kw = Inr enc"
proof -
  define B where "B = or_default ResNetBasicBlock block"
  define A where "A = or_default ''ReLU'' act"
  from assms(1) obtain s0 ss where S: "or_default [64, 128, 256, 512] sizes = s0 # ss"
    by (cases "or_default [64, 128, 256, 512] sizes") auto
  from assms(2) obtain d0 ds where D: "or_default [2, 2, 2, 2] depths = d0 # ds"
    by (cases "or_default [2, 2, 2, 2] depths") auto
  from assms(6) obtain ex where ex: "class_expansion B = Inr ex"
    unfolding B_def by (cases "or_default ResNetBasicBlock block") auto
  have A: "activation_func (or_default ''ReLU'' (Some A)) = Inr f"
    using assms(3) by (simp add: A_def)
  have layer: "\<exists>l. ResNetLayer_init i o' (Some B) n (Some A) kw = Inr l" for i o' n
    using ResNetLayer_init_succeeds [OF A assms(4,5), of "Some B"] assms(6,7)
    by (simp add: B_def)
  then obtain l0 where l0: "ResNetLayer_init s0 s0 (Some B) (Some d0) (Some A) kw = Inr l0"
    by blast
  have "\<forall>ion \<in> set (zip (zip (s0 # ss) ss) ds). \<exists>l. following_layer B A kw ion = Inr l"
    using layer ex by (auto simp: following_layer_def)
  from collect_all_Inr [OF this] obtain ls where
    "collect (map (following_layer B A kw) (zip (zip (s0 # ss) ss) ds)) = Inr ls"
    by blast
  with l0 S D assms(3) show ?thesis
    by (simp add: ResNetEncoder_init_def Let_def Conv3d_init_def no_conv_kwargs_def
        B_def [symmetric] A_def [symmetric])
qed

lemma and_then_simps:
  "and_then (Inl e) f = Inl e"
  "and_then (Inr v) f = f v"
  by (simp_all add: and_then_def)

lemma in_sequence_raised:
  "foldl (\<lambda>r m. and_then r (forward fw m)) (Inl e) ms = Inl e"
  by (induction ms) (simp_all add: and_then_simps)

lemma forward_each_in_sequence:
  "forward_each fw ms x = in_sequence fw ms x"
proof (induction ms arbitrary: x)
  case Nil
  then show ?case by (simp add: in_sequence_def)
next
  case (Cons m ms)
  show ?case
  proof (cases "forward fw m x")
    case (Inl e)
    then show ?thesis
      by (simp add: in_sequence_def and_then_simps in_sequence_raised)
  next
    case (Inr y)
    with Cons.IH [of y] show ?thesis
      by (simp add: in_sequence_def and_then_simps)
  qed
qed

lemma small_encoder:
  "ResNetEncoder_init (Some 1) (Some [4]) (Some [1]) None None no_block_kwargs =
   Inr (ResNetEncoder [4] []
     (Sequential [Conv Conv3d 1 4 (7, 7, 7) (2, 2, 2) (3, 3, 3) (1, 1, 1) False, BatchNorm3d 4,
                  ReLU, MaxPool3d 3 2 1])
     (ModuleList
        [ResNetLayer (Sequential
           [ResNetBlock_obj ResNetBasicBlock 4 4 ''ReLU''
              (Sequential
                 [Sequential [Conv Conv3dAuto 4 4 (3, 3, 3) (1, 1, 1) (1, 1, 1) (1, 1, 1) False,
                              BatchNorm3d 4],
                  ReLU,
                  Sequential [Conv Conv3dAuto 4 4 (3, 3, 3) (1, 1, 1) (1, 1, 1) (1, 1, 1) False,
                              BatchNorm3d 4]])
              ReLU None 1 1])]))"
  by code_simp

lemma list_all2_map_eq:
  "list_all2 P xs ys \<Longrightarrow> (\<And>x y. P x y \<Longrightarrow> f y = g x) \<Longrightarrow> map f ys = map g xs"
  by (induction rule: list_all2_induct) auto

lemma map_snd_zip_take_length:
  "map snd (zip xs ys) = take (length xs) ys"
proof (induction xs arbitrary: ys)
  case Nil
  then show ?case by simp
next
  case (Cons x xs)
  then show ?case by (cases ys) simp_all
qed

lemma ResNetLayer_init_length:
  assumes "ResNetLayer_init i o' block n act kw = Inr l"
  shows "length (children (blocks l)) = Suc (nat (or_default 1 n - 1))"
  using ResNetLayer_init_Inr [OF assms] by auto

lemma following_layer_length:
  assumes "following_layer B A kw ion = Inr l"
  shows "length (children (blocks l)) = Suc (nat (snd ion - 1))"
proof -
  obtain i o' n where ion: "ion = ((i, o'), n)"
    by (metis prod.collapse)
  with assms obtain ex where "ResNetLayer_init (i * ex) o' (Some B) (Some n) (Some A) kw = Inr l"
    by (auto simp: following_layer_def split: sum.splits)
  from ResNetLayer_init_length [OF this] ion show ?thesis
    by simp
qed

lemma ResNetEncoder_init_depth_profile:
  assumes "ResNetEncoder_init ic sizes depths act block kw = Inr enc"
  shows "depth_profile enc =
           map (\<lambda>n. Suc (nat (n - 1)))
             (take (length (or_default [64, 128, 256, 512] sizes)) (or_default [2, 2, 2, 2] depths))"
proof -
  from ResNetEncoder_init_Inr [OF assms] obtain s0 ss d0 ds g l0 ls where
    S: "or_default [64, 128, 256, 512] sizes = s0 # ss"
    and D: "or_default [2, 2, 2, 2] depths = d0 # ds"
    and enc: "enc = ResNetEncoder (s0 # ss) (zip (s0 # ss) ss) g (ModuleList (l0 # ls))"
    and l0: "ResNetLayer_init s0 s0 (Some (or_default ResNetBasicBlock block)) (Some d0)
               (Some (or_default ''ReLU'' act)) kw = Inr l0"
    and ls: "list_all2 (\<lambda>ion l. following_layer (or_default ResNetBasicBlock block)
                                 (or_default ''ReLU'' act) kw ion = Inr l)
               (zip (zip (s0 # ss) ss) ds) ls"
    by blast
  have "map (\<lambda>l. length (children (blocks l))) ls =
        map (\<lambda>ion. Suc (nat (snd ion - 1))) (zip (zip (s0 # ss) ss) ds)"
    using ls by (rule list_all2_map_eq) (rule following_layer_length)
  also have "\<dots> = map (\<lambda>n. Suc (nat (n - 1))) (map snd (zip (zip (s0 # ss) ss) ds))"
    by simp
  also have "\<dots> = map (\<lambda>n. Suc (nat (n - 1))) (take (length ss) ds)"
    by (simp only: map_snd_zip_take_length) simp
  finally have "map (\<lambda>l. length (children (blocks l))) ls =
      map (\<lambda>n. Suc (nat (n - 1))) (take (length ss) ds)" .
  with ResNetLayer_init_length [OF l0] show ?thesis
    by (simp add: depth_profile_def enc S D)
qed





section \<open>The claims\<close>

text \<open>
  C1. For every input \<open>x\<close>, \<open>ResidualBlock.forward\<close>, which every block class inherits,
  computes the residual composition: the shortcut is applied to \<open>x\<close> only when the
  block's own \<open>should_apply_shortcut\<close> holds (the residual is \<open>x\<close> otherwise), the main
  blocks are applied to \<open>x\<close>, the residual is added to their result, the activation is
  applied, and that value is returned; a raise at any step ends the call. This holds for
  every block object, in particular for the blocks the constructors return, whose
  \<open>should_apply_shortcut\<close> is the one of their class.
\<close>

theorem forward_residual_composition:
  "forward fw (ResidualBlock_obj i o' a b f s) x =
     residual_composition fw (ResidualBlock_obj i o' a b f s) x \<and>
   forward fw (ResNetBlock_obj c i o' a b f s ex ds) x =
     residual_composition fw (ResNetBlock_obj c i o' a b f s ex ds) x \<and>
   (\<forall>self. ResidualBlock_init i o' act = Inr self \<longrightarrow>
      forward fw self x = residual_composition fw self x \<and>
      should_apply_shortcut self = (i \<noteq> o')) \<and>
   (\<forall>self. instantiate cls i o' act kw = Inr self \<longrightarrow>
      forward fw self x = residual_composition fw self x \<and>
      should_apply_shortcut self = (i \<noteq> expanded_channels self))"
proof -
  have obj: "forward fw (ResidualBlock_obj i o' a b f s) x =
      residual_composition fw (ResidualBlock_obj i o' a b f s) x"
    "forward fw (ResNetBlock_obj c i o' a b f s ex ds) x =
      residual_composition fw (ResNetBlock_obj c i o' a b f s ex ds) x"
    for c i o' a b f s ex ds
    by (simp_all add: residual_composition_def and_then_def call_def)
  have base: "forward fw self x = residual_composition fw self x \<and>
      should_apply_shortcut self = (i \<noteq> o')"
    if "ResidualBlock_init i o' act = Inr self" for self
  proof -
    from that obtain g where
      "self = ResidualBlock_obj i o' (or_default ''ReLU'' act) Identity g (Some Identity)"
      by (auto simp: ResidualBlock_init_def Let_def split: sum.splits)
    with obj(1) show ?thesis
      by (simp only: should_apply_shortcut.simps)
  qed
  have sub: "forward fw self x = residual_composition fw self x \<and>
      should_apply_shortcut self = (i \<noteq> expanded_channels self)"
    if "instantiate cls i o' act kw = Inr self" for self
  proof -
    from instantiate_built [OF that] obtain a' blk g sc ex' d where
      "self = ResNetBlock_obj cls i o' a' blk g sc ex' d"
      unfolding block_built_def by blast
    with obj(2) show ?thesis
      by (simp only: should_apply_shortcut.simps expanded_channels.simps)
  qed
  from obj base sub show ?thesis
    by blast
qed

theorem forward_residual_composition_witness:
  "(\<exists>self. ResidualBlock_init 4 8 None = Inr self \<and> should_apply_shortcut self \<and>
      forward counting self 5 = residual_composition counting self 5 \<and>
      forward counting self 5 = Inr 11) \<and>
   (\<exists>self. instantiate ResNetBasicBlock 4 8 None no_block_kwargs = Inr self \<and>
      should_apply_shortcut self \<and>
      forward counting self 0 = residual_composition counting self 0 \<and>
      forward counting self 0 = Inr 8)"
proof (intro conjI)
  note inst = forward_residual_composition [where i = 4 and o' = 8 and act = None
      and cls = ResNetBasicBlock and kw = no_block_kwargs and fw = counting]
  have base: "ResidualBlock_init 4 8 None =
      Inr (ResidualBlock_obj 4 8 ''ReLU'' Identity ReLU (Some Identity))"
    by (simp add: ResidualBlock_init_def activation_func_simps)
  have "forward counting (ResidualBlock_obj 4 8 ''ReLU'' Identity ReLU (Some Identity)) 5 = Inr 11"
    by (simp add: counting_def)
  with base inst [THEN conjunct2, THEN conjunct2, THEN conjunct1, rule_format, OF base, of 5]
  show "\<exists>self. ResidualBlock_init 4 8 None = Inr self \<and> should_apply_shortcut self \<and>
      forward counting self 5 = residual_composition counting self 5 \<and>
      forward counting self 5 = Inr 11"
    by (intro exI [of _ "ResidualBlock_obj 4 8 ''ReLU'' Identity ReLU (Some Identity)"]) simp
  have built: "instantiate ResNetBasicBlock 4 8 None no_block_kwargs =
      Inr (ResNetBlock_obj ResNetBasicBlock 4 8 ''ReLU''
             (Sequential
                [Sequential [Conv Conv3dAuto 4 8 (3, 3, 3) (1, 1, 1) (1, 1, 1) (1, 1, 1) False,
                             BatchNorm3d 8],
                 ReLU,
                 Sequential [Conv Conv3dAuto 8 8 (3, 3, 3) (1, 1, 1) (1, 1, 1) (1, 1, 1) False,
                             BatchNorm3d 8]])
             ReLU
             (Some (Sequential [Conv Conv3d 4 8 (1, 1, 1) (1, 1, 1) (0, 0, 0) (1, 1, 1) False,
                                BatchNorm3d 8]))
             1 1)"
    by (simp add: ResNetBasicBlock_init_conv3x3 no_block_kwargs_def activation_func_simps)
  have run: "forward counting
      (ResNetBlock_obj ResNetBasicBlock 4 8 ''ReLU''
             (Sequential
                [Sequential [Conv Conv3dAuto 4 8 (3, 3, 3) (1, 1, 1) (1, 1, 1) (1, 1, 1) False,
                             BatchNorm3d 8],
                 ReLU,
                 Sequential [Conv Conv3dAuto 8 8 (3, 3, 3) (1, 1, 1) (1, 1, 1) (1, 1, 1) False,
                             BatchNorm3d 8]])
             ReLU
             (Some (Sequential [Conv Conv3d 4 8 (1, 1, 1) (1, 1, 1) (0, 0, 0) (1, 1, 1) False,
                                BatchNorm3d 8]))
             1 1) 0 = Inr 8"
    by (simp add: counting_def)
  from inst [THEN conjunct2, THEN conjunct2, THEN conjunct2, rule_format, OF built, of 0] built run
  show "\<exists>self. instantiate ResNetBasicBlock 4 8 None no_block_kwargs = Inr self \<and>
      should_apply_shortcut self \<and>
      forward counting self 0 = residual_composition counting self 0 \<and>
      forward counting self 0 = Inr 8"
    by (intro exI [of _ "ResNetBlock_obj ResNetBasicBlock 4 8 ''ReLU''
             (Sequential
                [Sequential [Conv Conv3dAuto 4 8 (3, 3, 3) (1, 1, 1) (1, 1, 1) (1, 1, 1) False,
                             BatchNorm3d 8],
                 ReLU,
                 Sequential [Conv Conv3dAuto 8 8 (3, 3, 3) (1, 1, 1) (1, 1, 1) (1, 1, 1) False,
                             BatchNorm3d 8]])
             ReLU
             (Some (Sequential [Conv Conv3d 4 8 (1, 1, 1) (1, 1, 1) (0, 0, 0) (1, 1, 1) False,
                                BatchNorm3d 8]))
             1 1"]) simp
qed




text \<open>
  C9. \<open>activation_func\<close> returns a module for the four names \<open>ReLU\<close>, \<open>leaky_ReLU\<close>,
  \<open>SeLU\<close> and \<open>none\<close> (the identity module for the last) and raises \<open>KeyError\<close> for
  every other string; with such a string the construction of a block, of a layer and of
  an encoder fails.
\<close>

theorem activation_func_exactly_four:
  "activation_func ''ReLU'' = Inr ReLU \<and>
   activation_func ''leaky_ReLU'' = Inr LeakyReLU \<and>
   activation_func ''SeLU'' = Inr SELU \<and>
   activation_func ''none'' = Inr Identity \<and>
   (a \<notin> {''ReLU'', ''leaky_ReLU'', ''SeLU'', ''none''} \<longrightarrow>
      activation_func a = Inl KeyError \<and>
      ResidualBlock_init i o' (Some a) = Inl KeyError \<and>
      (\<exists>e. instantiate cls i o' (Some a) kw = Inl e) \<and>
      (\<exists>e. ResNetLayer_init i o' block n (Some a) kw = Inl e) \<and>
      (\<exists>e. ResNetEncoder_init ic sizes depths (Some a) block kw = Inl e) \<and>
      (\<exists>e. resnet18 ic' block (ekw\<lparr>kw_activation := Some a\<rparr>) = Inl e) \<and>
      (\<exists>e. resnet34 ic' block (ekw\<lparr>kw_activation := Some a\<rparr>) = Inl e))"
proof -
  have bad: "activation_func a = Inl KeyError"
    if "a \<notin> {''ReLU'', ''leaky_ReLU'', ''SeLU'', ''none''}"
    using that by (rule activation_func_KeyError)
  have block: "\<exists>e. instantiate cls i o' (Some a) kw = Inl e"
    if "activation_func a = Inl KeyError" for cls i o' kw
  proof (cases "instantiate cls i o' (Some a) kw")
    case (Inl e)
    then show ?thesis by blast
  next
    case (Inr b)
    from instantiate_built [OF Inr] that show ?thesis
      by (simp add: block_built_def)
  qed
  have layer: "\<exists>e. ResNetLayer_init i o' block n (Some a) kw = Inl e"
    if "activation_func a = Inl KeyError" for i o' block n kw
  proof (cases "ResNetLayer_init i o' block n (Some a) kw")
    case (Inl e)
    then show ?thesis by blast
  next
    case (Inr l)
    from ResNetLayer_init_Inr [OF Inr] that show ?thesis
      by (auto simp: block_built_def)
  qed
  have enc: "\<exists>e. ResNetEncoder_init ic sizes depths (Some a) block kw = Inl e"
    if "activation_func a = Inl KeyError" for ic sizes depths block kw
    using that by (simp add: ResNetEncoder_init_def Conv3d_init_def Let_def split: list.splits)
  have r18: "\<exists>e. resnet18 ic' block (ekw\<lparr>kw_activation := Some a\<rparr>) = Inl e"
    if "activation_func a = Inl KeyError"
    using enc [OF that] by (simp add: resnet18_def Let_def)
  have r34: "\<exists>e. resnet34 ic' block (ekw\<lparr>kw_activation := Some a\<rparr>) = Inl e"
    if "activation_func a = Inl KeyError"
    using enc [OF that] by (simp add: resnet34_def Let_def)
  have base: "ResidualBlock_init i o' (Some a) = Inl KeyError"
    if "activation_func a = Inl KeyError"
    using that by (simp add: ResidualBlock_init_def)
  from bad block layer enc r18 r34 base show ?thesis
    by (simp add: activation_func_simps)
qed

theorem activation_func_exactly_four_witness:
  "activation_func ''tanh'' = Inl KeyError \<and>
   ResidualBlock_init 1 1 (Some ''tanh'') = Inl KeyError \<and>
   (\<exists>e. instantiate ResNetBasicBlock 1 1 (Some ''tanh'') no_block_kwargs = Inl e) \<and>
   (\<exists>e. ResNetLayer_init 1 1 None None (Some ''tanh'') no_block_kwargs = Inl e) \<and>
   (\<exists>e. ResNetEncoder_init None None None (Some ''tanh'') None no_block_kwargs = Inl e) \<and>
   (\<exists>e. resnet18 1 None (no_encoder_kwargs\<lparr>kw_activation := Some ''tanh''\<rparr>) = Inl e)"
  using activation_func_exactly_four [where a = "''tanh''" and i = 1 and o' = 1
      and cls = ResNetBasicBlock and kw = no_block_kwargs and block = None and n = None
      and ic = None and sizes = None and depths = None and ic' = 1 and ekw = no_encoder_kwargs]
  by simp



text \<open>
  C4. The gate of an encoder is the sequence of a 3-D convolution from \<open>in_channels\<close> to
  \<open>blocks_sizes[0]\<close> channels with kernel size 7, stride 2, padding 3 and no bias, a
  3-D batch normalisation over \<open>blocks_sizes[0]\<close> channels, the selected activation,
  and a 3-D max pooling with kernel size 3, stride 2 and padding 1, in this order.
\<close>

theorem ResNetEncoder_gate:
  assumes "ResNetEncoder_init ic sizes depths act block kw = Inr enc"
  shows "\<exists>s0 ss a.
           or_default [64, 128, 256, 512] sizes = s0 # ss \<and>
           activation_func (or_default ''ReLU'' act) = Inr a \<and>
           gate enc =
             Sequential [Conv Conv3d (or_default 3 ic) s0 (7, 7, 7) (2, 2, 2) (3, 3, 3) (1, 1, 1) False,
                         BatchNorm3d s0, a, MaxPool3d 3 2 1]"
  using ResNetEncoder_init_Inr [OF assms] by auto

theorem ResNetEncoder_gate_witness:
  "\<exists>enc. ResNetEncoder_init (Some 1) None None (Some ''SeLU'') None no_block_kwargs = Inr enc \<and>
     gate enc =
       Sequential [Conv Conv3d 1 64 (7, 7, 7) (2, 2, 2) (3, 3, 3) (1, 1, 1) False,
                   BatchNorm3d 64, SELU, MaxPool3d 3 2 1]"
proof -
  have "\<exists>enc. ResNetEncoder_init (Some 1) None None (Some ''SeLU'') None no_block_kwargs = Inr enc"
    by (rule ResNetEncoder_init_succeeds [where f = SELU])
      (simp_all add: activation_func_simps no_block_kwargs_def)
  then obtain enc where
    enc: "ResNetEncoder_init (Some 1) None None (Some ''SeLU'') None no_block_kwargs = Inr enc"
    by blast
  from ResNetEncoder_gate [OF enc] enc show ?thesis
    by (auto simp: activation_func_simps)
qed





text \<open>
  C7. \<open>ResNetEncoder.forward\<close> is the sequential composition of its parts: for every
  input \<open>x\<close> it returns the result of applying the gate to \<open>x\<close> and then each layer of
  \<open>self.blocks\<close> in list order, and nothing else is computed; this holds for every
  encoder the constructor returns.
\<close>

theorem ResNetEncoder_forward_in_sequence:
  "forward fw (ResNetEncoder s io g (ModuleList ls)) x = in_sequence fw (g # ls) x \<and>
   (\<forall>enc. ResNetEncoder_init ic sizes depths act block kw = Inr enc \<longrightarrow>
      forward fw enc x = in_sequence fw (gate enc # children (blocks enc)) x)"
proof -
  have eq: "forward fw (ResNetEncoder s io g (ModuleList ls)) x = in_sequence fw (g # ls) x"
    for s io g ls
  proof (cases "forward fw g x")
    case (Inl e)
    then show ?thesis
      by (simp add: in_sequence_def and_then_simps in_sequence_raised)
  next
    case (Inr y)
    with forward_each_in_sequence [of fw ls y] show ?thesis
      by (simp add: in_sequence_def and_then_simps)
  qed
  have "forward fw enc x = in_sequence fw (gate enc # children (blocks enc)) x"
    if "ResNetEncoder_init ic sizes depths act block kw = Inr enc" for enc
  proof -
    from ResNetEncoder_init_Inr [OF that] obtain s' io' g' ls'
      where "enc = ResNetEncoder s' io' g' (ModuleList ls')"
      by blast
    with eq [of s' io' g' ls'] show ?thesis
      by (simp only: module.sel)
  qed
  with eq show ?thesis
    by blast
qed

theorem ResNetEncoder_forward_in_sequence_witness:
  "\<exists>enc. ResNetEncoder_init (Some 1) (Some [4]) (Some [1]) None None no_block_kwargs = Inr enc \<and>
     forward counting enc 0 = in_sequence counting (gate enc # children (blocks enc)) 0 \<and>
     forward counting enc 0 = Inr 14"
proof -
  note inst = ResNetEncoder_forward_in_sequence [THEN conjunct2, rule_format, OF small_encoder,
      of counting 0]
  have "in_sequence counting
          [Sequential [Conv Conv3d 1 4 (7, 7, 7) (2, 2, 2) (3, 3, 3) (1, 1, 1) False, BatchNorm3d 4,
                       ReLU, MaxPool3d 3 2 1],
           ResNetLayer (Sequential
             [ResNetBlock_obj ResNetBasicBlock 4 4 ''ReLU''
                (Sequential
                   [Sequential [Conv Conv3dAuto 4 4 (3, 3, 3) (1, 1, 1) (1, 1, 1) (1, 1, 1) False,
                                BatchNorm3d 4],
                    ReLU,
                    Sequential [Conv Conv3dAuto 4 4 (3, 3, 3) (1, 1, 1) (1, 1, 1) (1, 1, 1) False,
                                BatchNorm3d 4]])
                ReLU None 1 1])] 0 = Inr 14"
    by (simp add: in_sequence_def and_then_simps counting_def)
  with inst small_encoder show ?thesis
    by simp
qed

text \<open>
  C2. \<open>resnet18\<close> and \<open>resnet34\<close> call the encoder constructor with the given
  \<open>in_channels\<close>, with \<open>block\<close> (\<open>ResNetBasicBlock\<close> when it is not given) and with the
  other keyword arguments unchanged, and differ only in the depths: \<open>resnet18\<close> always
  passes \<open>[2, 2, 2, 2]\<close> and \<open>resnet34\<close> always \<open>[3, 4, 6, 3]\<close>. The encoders they return
  have the same gate and block sizes, and their layers have 2, 2, 2, 2 and 3, 4, 6, 3
  blocks.
\<close>

theorem resnet18_resnet34_depths:
  "resnet18 ic block kw =
     (if kw_depths kw \<noteq> None then Inl TypeError
      else ResNetEncoder_init (Some ic) (kw_blocks_sizes kw) (Some [2, 2, 2, 2]) (kw_activation kw)
             (Some (or_default ResNetBasicBlock block)) (kw_block kw)) \<and>
   resnet34 ic block kw =
     (if kw_depths kw \<noteq> None then Inl TypeError
      else ResNetEncoder_init (Some ic) (kw_blocks_sizes kw) (Some [3, 4, 6, 3]) (kw_activation kw)
             (Some (or_default ResNetBasicBlock block)) (kw_block kw)) \<and>
   (\<forall>e18 e34. resnet18 ic block kw = Inr e18 \<and> resnet34 ic block kw = Inr e34 \<longrightarrow>
      gate e18 = gate e34 \<and> blocks_sizes e18 = blocks_sizes e34 \<and>
      in_out_block_sizes e18 = in_out_block_sizes e34 \<and>
      depth_profile e18 = take (length (blocks_sizes e18)) [2, 2, 2, 2] \<and>
      depth_profile e34 = take (length (blocks_sizes e34)) [3, 4, 6, 3])"
proof (intro conjI allI impI)
  show "resnet18 ic block kw =
     (if kw_depths kw \<noteq> None then Inl TypeError
      else ResNetEncoder_init (Some ic) (kw_blocks_sizes kw) (Some [2, 2, 2, 2]) (kw_activation kw)
             (Some (or_default ResNetBasicBlock block)) (kw_block kw))"
    by (simp add: resnet18_def Let_def)
  show "resnet34 ic block kw =
     (if kw_depths kw \<noteq> None then Inl TypeError
      else ResNetEncoder_init (Some ic) (kw_blocks_sizes kw) (Some [3, 4, 6, 3]) (kw_activation kw)
             (Some (or_default ResNetBasicBlock block)) (kw_block kw))"
    by (simp add: resnet34_def Let_def)
next
  fix e18 e34
  assume both: "resnet18 ic block kw = Inr e18 \<and> resnet34 ic block kw = Inr e34"
  then have e18: "ResNetEncoder_init (Some ic) (kw_blocks_sizes kw) (Some [2, 2, 2, 2])
        (kw_activation kw) (Some (or_default ResNetBasicBlock block)) (kw_block kw) = Inr e18"
    and e34: "ResNetEncoder_init (Some ic) (kw_blocks_sizes kw) (Some [3, 4, 6, 3])
        (kw_activation kw) (Some (or_default ResNetBasicBlock block)) (kw_block kw) = Inr e34"
    by (auto simp: resnet18_def resnet34_def Let_def split: if_splits)
  from ResNetEncoder_init_Inr [OF e18] ResNetEncoder_init_Inr [OF e34]
  have same: "gate e18 = gate e34 \<and> blocks_sizes e18 = blocks_sizes e34 \<and>
      in_out_block_sizes e18 = in_out_block_sizes e34"
    and sizes: "blocks_sizes e18 = or_default [64, 128, 256, 512] (kw_blocks_sizes kw)"
      "blocks_sizes e34 = or_default [64, 128, 256, 512] (kw_blocks_sizes kw)"
    by auto
  have two: "map (\<lambda>n. Suc (nat (n - 1))) [2, 2, 2, 2 :: int] = [2, 2, 2, 2]"
    and three: "map (\<lambda>n. Suc (nat (n - 1))) [3, 4, 6, 3 :: int] = [3, 4, 6, 3]"
    by simp_all
  have "depth_profile e18 = take (length (blocks_sizes e18)) [2, 2, 2, 2]"
    unfolding ResNetEncoder_init_depth_profile [OF e18] sizes or_default.simps take_map [symmetric]
      two ..
  moreover have "depth_profile e34 = take (length (blocks_sizes e34)) [3, 4, 6, 3]"
    unfolding ResNetEncoder_init_depth_profile [OF e34] sizes or_default.simps take_map [symmetric]
      three ..
  ultimately show "gate e18 = gate e34" "blocks_sizes e18 = blocks_sizes e34"
    "in_out_block_sizes e18 = in_out_block_sizes e34"
    "depth_profile e18 = take (length (blocks_sizes e18)) [2, 2, 2, 2]"
    "depth_profile e34 = take (length (blocks_sizes e34)) [3, 4, 6, 3]"
    using same by simp_all
qed

theorem resnet18_resnet34_depths_witness:
  "\<exists>e18 e34. resnet18 1 None no_encoder_kwargs = Inr e18 \<and>
     resnet34 1 None no_encoder_kwargs = Inr e34 \<and>
     gate e18 = gate e34 \<and>
     depth_profile e18 = [2, 2, 2, 2] \<and> depth_profile e34 = [3, 4, 6, 3]"
proof -
  note inst = resnet18_resnet34_depths [of 1 None no_encoder_kwargs]
  have ok: "\<exists>enc. ResNetEncoder_init (Some 1) None (Some d) None (Some ResNetBasicBlock)
              no_block_kwargs = Inr enc" if "d \<noteq> []" for d
    using that
    by (intro ResNetEncoder_init_succeeds [where f = ReLU])
      (simp_all add: activation_func_simps no_block_kwargs_def)
  from ok [of "[2, 2, 2, 2]"] inst obtain e18 where
    e18: "resnet18 1 None no_encoder_kwargs = Inr e18"
    by (auto simp: no_encoder_kwargs_def)
  from ok [of "[3, 4, 6, 3]"] inst obtain e34 where
    e34: "resnet34 1 None no_encoder_kwargs = Inr e34"
    by (auto simp: no_encoder_kwargs_def)
  from e18 inst have "ResNetEncoder_init (Some 1) None (Some [2, 2, 2, 2]) None
      (Some ResNetBasicBlock) no_block_kwargs = Inr e18"
    by (simp add: no_encoder_kwargs_def)
  from ResNetEncoder_init_Inr [OF this] have "blocks_sizes e18 = [64, 128, 256, 512]"
    by auto
  moreover from e34 inst have "ResNetEncoder_init (Some 1) None (Some [3, 4, 6, 3]) None
      (Some ResNetBasicBlock) no_block_kwargs = Inr e34"
    by (simp add: no_encoder_kwargs_def)
  from ResNetEncoder_init_Inr [OF this] have "blocks_sizes e34 = [64, 128, 256, 512]"
    by auto
  moreover from e18 e34 have "gate e18 = gate e34 \<and>
      depth_profile e18 = take (length (blocks_sizes e18)) [2, 2, 2, 2] \<and>
      depth_profile e34 = take (length (blocks_sizes e34)) [3, 4, 6, 3]"
    using inst [THEN conjunct2, THEN conjunct2, rule_format, of e18 e34] by blast
  ultimately have "gate e18 = gate e34 \<and> depth_profile e18 = [2, 2, 2, 2] \<and>
      depth_profile e34 = [3, 4, 6, 3]"
    by simp
  with e18 e34 show ?thesis
    by blast
qed



end
